theory Spec2Isabelle
  imports Main "HOL-Library.Word"
begin

section \<open>C integers\<close>

text \<open>
  The program computes with C \<open>int\<close> (32 bits, two's complement). A value of type
  \<open>int\<close> is modelled as a HOL integer from -2147483648 to 2147483647; every addition
  of the source is followed by \<open>int32\<close>, the reduction to that range. Signed overflow
  is undefined in C; the reduction is what the usual targets compute.
\<close>

definition int32 :: "int \<Rightarrow> int" where
  "int32 x = (x + 2147483648) mod 4294967296 - 2147483648"

text \<open>\<open>a / b\<close> on C integers truncates towards zero.\<close>

definition c_div :: "int \<Rightarrow> int \<Rightarrow> int" where
  "c_div a b = (if (a < 0) = (b < 0) then \<bar>a\<bar> div \<bar>b\<bar> else - (\<bar>a\<bar> div \<bar>b\<bar>))"

section \<open>C strings and the routines of the C library the program calls\<close>

definition NUL :: char where
  "NUL = CHR 0x00"

text \<open>The string a buffer holds: its bytes before the first terminator.\<close>

definition c_str :: "string \<Rightarrow> string" where
  "c_str buf = takeWhile (\<lambda>c. c \<noteq> NUL) buf"

definition strlen :: "string \<Rightarrow> nat" where
  "strlen buf = length (c_str buf)"

definition isspace :: "char \<Rightarrow> bool" where
  "isspace c = (c = CHR '' '' \<or> c = CHR 0x09 \<or> c = CHR 0x0A \<or> c = CHR 0x0B
     \<or> c = CHR 0x0C \<or> c = CHR 0x0D)"

definition isdigit :: "char \<Rightarrow> bool" where
  "isdigit c = (48 \<le> (of_char c :: nat) \<and> (of_char c :: nat) \<le> 57)"

definition digit_val :: "char \<Rightarrow> int" where
  "digit_val c = int (of_char c) - 48"

definition scan_digits :: "string \<Rightarrow> int option" where
  "scan_digits s =
     (let ds = takeWhile isdigit s
      in if ds = [] then None else Some (foldl (\<lambda>a c. 10 * a + digit_val c) 0 ds))"

text \<open>
  \<open>sscanf(buf, "%d", &x)\<close>: white space is skipped, then an optional sign and at least
  one decimal digit are read. \<open>None\<close> is a return value below 1 (nothing stored),
  \<open>Some v\<close> is the return value 1 with \<open>v\<close> stored. C leaves the conversion of a
  numeral outside the range of \<open>int\<close> undefined; the model stores what glibc on an
  LP64 target stores, the numeral saturated to 64 bits and cut to 32.
\<close>

definition store_int :: "int \<Rightarrow> int" where
  "store_int v = int32 (max (- 9223372036854775808) (min 9223372036854775807 v))"

definition sscanf_d :: "string \<Rightarrow> int option" where
  "sscanf_d s =
     (case dropWhile isspace s of
        [] \<Rightarrow> None
      | c # r \<Rightarrow>
          if c = CHR ''-'' then map_option (\<lambda>v. store_int (- v)) (scan_digits r)
          else if c = CHR ''+'' then map_option store_int (scan_digits r)
          else map_option store_int (scan_digits (c # r)))"

text \<open>\<open>"%d"\<close> as \<open>snprintf\<close> prints it.\<close>

fun dec_nat :: "nat \<Rightarrow> string" where
  "dec_nat n =
     (if n < 10 then [char_of (48 + n)]
      else dec_nat (n div 10) @ [char_of (48 + n mod 10)])"

declare dec_nat.simps [simp del]

definition dec_int :: "int \<Rightarrow> string" where
  "dec_int i = (if i < 0 then CHR ''-'' # dec_nat (nat (- i)) else dec_nat (nat i))"

text \<open>
  \<open>snprintf(buf, buflen, "%d", v)\<close>: at most \<open>buflen - 1\<close> characters and a terminator
  are stored at the start of the buffer; the length of the full text is returned.
\<close>

definition snprintf_d :: "string \<Rightarrow> int \<Rightarrow> int \<Rightarrow> string \<times> int" where
  "snprintf_d buf buflen v =
     (let s = dec_int v; shown = take (nat buflen - 1) s
      in (shown @ NUL # drop (Suc (length shown)) buf, int (length s)))"

section \<open>The sysfs files\<close>

text \<open>
  What the system calls on a path do is the environment's choice: whether it opens for
  reading and for writing, what a \<open>read\<close> delivers (an error or the file's bytes) and
  what a \<open>write\<close> does (an error, or the number of bytes it accepts at most).
\<close>

datatype read_result = ReadError | ReadData string

datatype write_result = WriteError | WriteAccepts nat

record sysfs_node =
  open_rd :: bool
  read_res :: read_result
  open_wr :: bool
  write_res :: write_result

type_synonym sysfs = "string \<Rightarrow> sysfs_node"

definition MAX_BRIGHTNESS_PATH :: string where
  "MAX_BRIGHTNESS_PATH = ''/sys/class/backlight/intel_backlight/max_brightness''"

definition BRIGHTNESS_PATH :: string where
  "BRIGHTNESS_PATH = ''/sys/class/backlight/intel_backlight/brightness''"

subsection \<open>rtrim\<close>

definition trim_char :: "char \<Rightarrow> bool" where
  "trim_char c = (c = CHR 0x0D \<or> c = CHR 0x0A \<or> c = CHR '' '' \<or> c = NUL)"

text \<open>
  The loop of \<open>rtrim\<close>, with \<open>k\<close> one more than the offset of \<open>c\<close> from \<open>str\<close>: it
  steps back over the characters it trims and stops below the start of the string.
  The result is the offset of the terminator that \<open>rtrim\<close> then stores.
\<close>

fun rtrim_loop :: "string \<Rightarrow> nat \<Rightarrow> nat" where
  "rtrim_loop str 0 = 0"
| "rtrim_loop str (Suc c) = (if trim_char (str ! c) then rtrim_loop str c else Suc c)"

definition rtrim :: "string \<Rightarrow> string" where
  "rtrim str = str[rtrim_loop str (Suc (strlen str)) := NUL]"

subsection \<open>read_sysfs\<close>

text \<open>
  The outcome of \<open>read_sysfs\<close>: the value returned, the buffer, the offset at which the
  terminator was stored (\<open>None\<close> when the function returned before the store) and the
  messages handed to \<open>perror\<close>. A store outside the buffer leaves the buffer as it is:
  it lands in memory the model does not hold.
\<close>

record read_outcome =
  rd_ret :: int
  rd_buf :: string
  rd_store :: "int option"
  rd_err :: "string list"

definition size_t :: "int \<Rightarrow> nat" where
  "size_t n = nat (n mod 18446744073709551616)"

definition in_bounds :: "string \<Rightarrow> int \<Rightarrow> bool" where
  "in_bounds buf k = (0 \<le> k \<and> k < int (length buf))"

definition store_nul :: "string \<Rightarrow> int \<Rightarrow> string" where
  "store_nul buf k = (if in_bounds buf k then buf[nat k := NUL] else buf)"

definition read_sysfs :: "sysfs \<Rightarrow> string \<Rightarrow> string \<Rightarrow> int \<Rightarrow> read_outcome" where
  "read_sysfs fs path buf buflen =
     (if \<not> open_rd (fs path) then
        \<lparr>rd_ret = - 1, rd_buf = buf, rd_store = None,
         rd_err = [''read_sysfs failed (open)'']\<rparr>
      else
        (case read_res (fs path) of
           ReadError \<Rightarrow>
             \<lparr>rd_ret = - 1, rd_buf = store_nul buf (- 1), rd_store = Some (- 1),
              rd_err = [''read_sysfs failed (read)'']\<rparr>
         | ReadData bytes \<Rightarrow>
             (let got = take (size_t (buflen - 1)) bytes;
                  rdlen = int (length got);
                  buf1 = got @ drop (length got) buf
              in \<lparr>rd_ret = rdlen, rd_buf = store_nul buf1 rdlen, rd_store = Some rdlen,
                  rd_err = []\<rparr>)))"

subsection \<open>write_sysfs\<close>

text \<open>
  The outcome of \<open>write_sysfs\<close>: the value returned, the bytes the file received
  (\<open>None\<close> when \<open>write\<close> was not reached or failed) and the messages handed to
  \<open>perror\<close>.
\<close>

record write_outcome =
  wr_ret :: int
  wr_bytes :: "string option"
  wr_err :: "string list"

definition write_sysfs :: "sysfs \<Rightarrow> string \<Rightarrow> string \<Rightarrow> int \<Rightarrow> write_outcome" where
  "write_sysfs fs path buf nbytes =
     (if \<not> open_wr (fs path) then
        \<lparr>wr_ret = - 1, wr_bytes = None, wr_err = [''write_sysfs failed (open)'']\<rparr>
      else
        (case write_res (fs path) of
           WriteError \<Rightarrow>
             \<lparr>wr_ret = - 1, wr_bytes = None, wr_err = [''write_sysfs failed (write)'']\<rparr>
         | WriteAccepts k \<Rightarrow>
             (let wrlen = int (min k (size_t nbytes))
              in \<lparr>wr_ret = wrlen, wr_bytes = Some (take (nat wrlen) buf),
                  wr_err = (if wrlen = - 1 \<or> wrlen < nbytes
                            then [''write_sysfs failed (write)''] else [])\<rparr>)))"

subsection \<open>do_brightness\<close>

text \<open>
  What one run of \<open>do_brightness\<close> leaves behind: the value returned, the bytes the
  brightness file received, standard output and standard error. Standard error is the
  list of its messages: the text of an \<open>fprintf\<close>, and for \<open>perror\<close> the prefix it was
  given (the system adds the reason).
\<close>

record brightness_outcome =
  br_ret :: int
  br_written :: "string option"
  br_stdout :: string
  br_stderr :: "string list"

definition do_brightness :: "sysfs \<Rightarrow> int \<Rightarrow> brightness_outcome" where
  "do_brightness fs delta =
     (let buf = replicate 512 NUL;
          buflen = 512;
          r1 = read_sysfs fs MAX_BRIGHTNESS_PATH buf buflen
      in if rd_ret r1 = - 1 then
           \<lparr>br_ret = 1, br_written = None, br_stdout = [], br_stderr = rd_err r1\<rparr>
         else
           (let max_br = (case sscanf_d (c_str (rd_buf r1)) of
                            None \<Rightarrow> 2147483647 | Some v \<Rightarrow> v);
                r2 = read_sysfs fs BRIGHTNESS_PATH (rd_buf r1) buflen;
                err2 = rd_err r1 @ rd_err r2
            in if rd_ret r2 = - 1 then
                 \<lparr>br_ret = 1, br_written = None, br_stdout = [], br_stderr = err2\<rparr>
               else
                 (case sscanf_d (c_str (rd_buf r2)) of
                    None \<Rightarrow>
                      \<lparr>br_ret = 1, br_written = None, br_stdout = [],
                       br_stderr = err2 @ [''invalid brightness from sysfs'' @ [CHR 0x0A]]\<rparr>
                  | Some br0 \<Rightarrow>
                      (let br1 = int32 (br0 + delta);
                           br = (if br1 < 0 then 0 else if br1 > max_br then max_br else br1);
                           (buf3, rwlen) = snprintf_d (rd_buf r2) buflen br;
                           w = write_sysfs fs BRIGHTNESS_PATH buf3 rwlen;
                           err3 = err2 @ wr_err w
                       in if wr_ret w = - 1 then
                            \<lparr>br_ret = 1, br_written = wr_bytes w, br_stdout = [],
                             br_stderr = err3\<rparr>
                          else
                            \<lparr>br_ret = 0, br_written = wr_bytes w,
                             br_stdout = ''Brightness: '' @ c_str (rtrim buf3),
                             br_stderr = err3\<rparr>))))"

section \<open>The PulseAudio client interface\<close>

text \<open>
  The types and constants below are those of the PulseAudio client headers the program
  includes (\<open>pulse/volume.h\<close>, \<open>pulse/introspect.h\<close>), with the fields the program
  reads. \<open>pa_volume_t\<close> is an unsigned 32-bit integer; \<open>PA_VOLUME_NORM\<close> is
  \<open>0x10000\<close>, \<open>PA_VOLUME_MUTED\<close> is \<open>0\<close>.
\<close>

type_synonym pa_volume_t = "32 word"

definition PA_VOLUME_NORM :: pa_volume_t where
  "PA_VOLUME_NORM = 0x10000"

definition PA_VOLUME_MUTED :: pa_volume_t where
  "PA_VOLUME_MUTED = 0"

text \<open>
  The field \<open>values\<close> of \<open>pa_cvolume\<close> is called \<open>volumes\<close> here, \<open>values\<close> being a
  word of the language.
\<close>

record pa_cvolume =
  channels :: "8 word"
  volumes :: "pa_volume_t list"

record pa_sink_info =
  sink_index :: "32 word"
  sink_mute :: int
  sink_volume :: pa_cvolume

record pa_source_info =
  source_index :: "32 word"
  source_mute :: int

record pa_server_info =
  default_sink_name :: string
  default_source_name :: string

text \<open>\<open>pa_cvolume_max\<close>: the largest volume among the channels in use.\<close>

definition pa_cvolume_max :: "pa_cvolume \<Rightarrow> pa_volume_t" where
  "pa_cvolume_max a = foldl max PA_VOLUME_MUTED (take (unat (channels a)) (volumes a))"

text \<open>The macro \<open>PA_CLAMP_UNLIKELY(x, low, high)\<close>.\<close>

definition PA_CLAMP_UNLIKELY :: "int \<Rightarrow> int \<Rightarrow> int \<Rightarrow> int" where
  "PA_CLAMP_UNLIKELY x low high = (if x > high then high else if x < low then low else x)"

text \<open>
  The requests the program sends on its context. Each mutation is sent with
  \<open>do_pulse_success\<close> as its completion callback, each query with the callback named
  in its constructor's comment. The volume of \<open>Set_sink_volume_by_index i cv v\<close> is
  \<open>cv\<close> after \<open>pa_cvolume_scale(&cv, v)\<close>, the library's scaling of every channel so
  that the largest becomes \<open>v\<close>.
\<close>

datatype pa_operation =
    Set_sink_mute_by_index "32 word" int
  | Set_sink_volume_by_index "32 word" pa_cvolume int
  | Set_source_mute_by_index "32 word" int
  | Get_sink_info_by_name string \<comment> \<open>answered through \<open>do_pulse_vs\<close>\<close>
  | Get_source_info_by_name string \<comment> \<open>answered through \<open>do_pulse_m\<close>\<close>

text \<open>
  What \<open>printf\<close> receives: text, or a volume formatted by the library's
  \<open>pa_volume_snprint\<close>.
\<close>

datatype printed = Text string | Volume_snprint int

section \<open>The audio path\<close>

text \<open>
  The state the callbacks work on: the three globals of the program (\<open>pulse_mapi\<close> is
  \<open>True\<close> when the pointer is not \<open>NULL\<close>), then what they do to the world: the value
  last handed to the main loop's \<open>quit\<close> (\<open>None\<close>: the loop was not asked to stop), the
  requests sent, standard output, standard error, and whether an \<open>assert\<close> failed.
\<close>

record session =
  pulse_mapi :: bool
  pulse_arg :: int
  pulse_op :: char
  quit_request :: "int option"
  sent :: "pa_operation list"
  stdout :: "printed list"
  stderr :: "string list"
  aborted :: bool

text \<open>
  The session \<open>main\<close> hands to the loop for \<open>v\<close>, \<open>s\<close> and \<open>m\<close>: it stores the
  argument and the action letter, and the API of the loop it created.
\<close>

definition session_start :: "char \<Rightarrow> int \<Rightarrow> session" where
  "session_start op arg =
     \<lparr>pulse_mapi = True, pulse_arg = arg, pulse_op = op, quit_request = None,
      sent = [], stdout = [], stderr = [], aborted = False\<rparr>"

definition pulse_quit :: "int \<Rightarrow> session \<Rightarrow> session" where
  "pulse_quit e s = (if pulse_mapi s then s\<lparr>quit_request := Some e\<rparr> else s)"

definition do_pulse_success :: "int \<Rightarrow> session \<Rightarrow> session" where
  "do_pulse_success success s = pulse_quit 0 s"

definition do_pulse_vs :: "pa_sink_info option \<Rightarrow> int \<Rightarrow> session \<Rightarrow> session" where
  "do_pulse_vs i eol s =
     (if eol < 0 then
        pulse_quit 1
          (s\<lparr>stderr := stderr s @
             [''pa_context_get_sink_info_by_name failed: '' @ dec_int eol @ [CHR 0x0A]]\<rparr>)
      else if eol \<noteq> 0 then s
      else
        (case i of
           None \<Rightarrow> s\<lparr>aborted := True\<rparr>
         | Some info \<Rightarrow>
             if pulse_op s = CHR ''s'' then
               (let new_mute = (if sink_mute info = 0 then 1 else 0 :: int)
                in s\<lparr>sent := sent s @ [Set_sink_mute_by_index (sink_index info) new_mute],
                     stdout := stdout s @
                       [Text (if new_mute \<noteq> 0 then ''Speakers muted'' else ''Speakers on'')]\<rparr>)
             else if pulse_op s = CHR ''v'' then
               (if channels (sink_volume info) < 1 then pulse_quit 0 s
                else
                  (let new_cvol = sink_volume info;
                       new_volume = int32 (sint (pa_cvolume_max new_cvol) + pulse_arg s);
                       normal_volume = sint PA_VOLUME_NORM;
                       new_volume =
                         (if new_volume > c_div (normal_volume * 98) 100
                             \<and> new_volume < c_div (normal_volume * 102) 100
                          then normal_volume else new_volume);
                       new_volume =
                         PA_CLAMP_UNLIKELY new_volume (sint PA_VOLUME_MUTED) normal_volume
                   in s\<lparr>sent := sent s @
                          [Set_sink_volume_by_index (sink_index info) new_cvol new_volume],
                        stdout := stdout s @ [Text ''Speakers '', Volume_snprint new_volume]\<rparr>))
             else
               pulse_quit 1
                 (s\<lparr>stderr := stderr s @
                    [''unexpected pulse op '' @ [pulse_op s] @ '' in do_pulse_vs'' @ [CHR 0x0A]]\<rparr>)))"

definition do_pulse_m :: "pa_source_info option \<Rightarrow> int \<Rightarrow> session \<Rightarrow> session" where
  "do_pulse_m i eol s =
     (if eol < 0 then
        pulse_quit 1
          (s\<lparr>stderr := stderr s @
             [''pa_context_get_source_info_by_name failed: '' @ dec_int eol @ [CHR 0x0A]]\<rparr>)
      else if eol \<noteq> 0 then s
      else
        (case i of
           None \<Rightarrow> s\<lparr>aborted := True\<rparr>
         | Some info \<Rightarrow>
             (let new_mute = (if source_mute info = 0 then 1 else 0 :: int)
              in s\<lparr>sent := sent s @ [Set_source_mute_by_index (source_index info) new_mute],
                   stdout := stdout s @
                     [Text (if new_mute \<noteq> 0 then ''Mic muted'' else ''Mic on'')]\<rparr>)))"

definition do_pulse_server_info :: "pa_server_info \<Rightarrow> session \<Rightarrow> session" where
  "do_pulse_server_info i s =
     (if pulse_op s = CHR ''v'' \<or> pulse_op s = CHR ''s'' then
        s\<lparr>sent := sent s @ [Get_sink_info_by_name (default_sink_name i)]\<rparr>
      else if pulse_op s = CHR ''m'' then
        s\<lparr>sent := sent s @ [Get_source_info_by_name (default_source_name i)]\<rparr>
      else s)"

subsection \<open>The server's side of a mute request\<close>

text \<open>
  The program never holds the mute state: it reads it from the record the server sends
  and sends a request back. For two invocations in a row the server is part of the
  statement. It holds the default sink and the default source, answers a query with
  their records, and on a mute request for the index of one of them stores whether the
  requested value is nonzero. The other requests leave the mute states as they are.
\<close>

record server =
  default_sink :: pa_sink_info
  default_source :: pa_source_info

definition serve :: "server \<Rightarrow> pa_operation \<Rightarrow> server" where
  "serve srv rq =
     (case rq of
        Set_sink_mute_by_index idx m \<Rightarrow>
          if idx = sink_index (default_sink srv)
          then srv\<lparr>default_sink := (default_sink srv)\<lparr>sink_mute := (if m \<noteq> 0 then 1 else 0)\<rparr>\<rparr>
          else srv
      | Set_source_mute_by_index idx m \<Rightarrow>
          if idx = source_index (default_source srv)
          then srv\<lparr>default_source :=
                 (default_source srv)\<lparr>source_mute := (if m \<noteq> 0 then 1 else 0)\<rparr>\<rparr>
          else srv
      | _ \<Rightarrow> srv)"

text \<open>
  One invocation with action \<open>s\<close>, and one with action \<open>m\<close>: the callback receives the
  record of the default device, and the server carries out what the callback sent.
\<close>

definition toggle_speakers :: "server \<Rightarrow> server" where
  "toggle_speakers srv =
     foldl serve srv (sent (do_pulse_vs (Some (default_sink srv)) 0 (session_start CHR ''s'' (- 1))))"

definition toggle_mic :: "server \<Rightarrow> server" where
  "toggle_mic srv =
     foldl serve srv (sent (do_pulse_m (Some (default_source srv)) 0 (session_start CHR ''m'' (- 1))))"

section \<open>Environments used in the examples\<close>

text \<open>
  A backlight directory with its two files, each given by what the system calls on it
  do; every other path does not open.
\<close>

definition sysfs_text :: "string \<Rightarrow> sysfs_node" where
  "sysfs_text text =
     \<lparr>open_rd = True, read_res = ReadData text, open_wr = True, write_res = WriteAccepts 4096\<rparr>"

definition sysfs_absent :: sysfs_node where
  "sysfs_absent =
     \<lparr>open_rd = False, read_res = ReadError, open_wr = False, write_res = WriteError\<rparr>"

definition backlight :: "sysfs_node \<Rightarrow> sysfs_node \<Rightarrow> sysfs" where
  "backlight max_file cur_file =
     (\<lambda>path. if path = MAX_BRIGHTNESS_PATH then max_file
             else if path = BRIGHTNESS_PATH then cur_file else sysfs_absent)"

text \<open>A stereo sink, both channels at the given volume.\<close>

definition stereo_sink :: "pa_volume_t \<Rightarrow> pa_sink_info" where
  "stereo_sink v =
     \<lparr>sink_index = 0, sink_mute = 0, sink_volume = \<lparr>channels = 2, volumes = [v, v]\<rparr>\<rparr>"

section \<open>Facts about the routines\<close>

subsection \<open>Ranges of the integers\<close>

lemma int32_range: "- 2147483648 \<le> int32 x \<and> int32 x \<le> 2147483647"
  unfolding int32_def by simp

lemma int32_id: "- 2147483648 \<le> x \<Longrightarrow> x \<le> 2147483647 \<Longrightarrow> int32 x = x"
  unfolding int32_def by simp

lemma store_int_range: "- 2147483648 \<le> store_int v \<and> store_int v \<le> 2147483647"
  unfolding store_int_def by (rule int32_range)

lemma sscanf_d_range:
  "sscanf_d s = Some v \<Longrightarrow> - 2147483648 \<le> v \<and> v \<le> 2147483647"
  using store_int_range
  by (auto simp: sscanf_d_def split: list.splits if_splits)

subsection \<open>The decimal text of an integer\<close>

lemma dec_nat_length: "n < 10 ^ k \<Longrightarrow> 0 < k \<Longrightarrow> length (dec_nat n) \<le> k"
proof (induction k arbitrary: n)
  case 0
  then show ?case by simp
next
  case (Suc k)
  show ?case
  proof (cases "n < 10")
    case True
    then show ?thesis by (simp add: dec_nat.simps [of n])
  next
    case False
    then have k: "0 < k" using Suc.prems by (cases k) auto
    have "n div 10 < 10 ^ k" using Suc.prems by (simp add: less_mult_imp_div_less mult.commute)
    then have "length (dec_nat (n div 10)) \<le> k" using Suc.IH k by blast
    then show ?thesis using False by (simp add: dec_nat.simps [of n])
  qed
qed

lemma dec_int_length:
  assumes "- 2147483648 \<le> i" "i \<le> 2147483647"
  shows "length (dec_int i) \<le> 11"
proof -
  have "nat \<bar>i\<bar> < 10 ^ 10" using assms by simp
  then have "length (dec_nat (nat \<bar>i\<bar>)) \<le> 10" by (rule dec_nat_length) simp
  then show ?thesis by (auto simp: dec_int_def abs_if)
qed

lemma dec_nat_no_trim: "c \<in> set (dec_nat n) \<Longrightarrow> 48 \<le> (of_char c :: nat)"
proof (induction n arbitrary: c rule: dec_nat.induct)
  case (1 n)
  show ?case
  proof (cases "n < 10")
    case True
    then show ?thesis using "1.prems" by (simp add: dec_nat.simps [of n])
  next
    case False
    have m: "n mod 10 < 10" by simp
    show ?thesis using "1.prems" "1.IH" False
      by (auto simp: dec_nat.simps [of n])
  qed
qed


subsection \<open>Buffers\<close>

lemma c_str_append_nul: "c_str (s @ NUL # t) = c_str s"
  unfolding c_str_def by (induction s) auto

lemma c_str_id: "NUL \<notin> set s \<Longrightarrow> c_str s = s"
  unfolding c_str_def by (induction s) auto

lemma store_nul_at_end:
  "n \<le> length s \<Longrightarrow> n < length buf \<Longrightarrow> length s = n
     \<Longrightarrow> store_nul (s @ drop n buf) (int n) = s @ NUL # drop (Suc n) buf"
  by (simp add: store_nul_def in_bounds_def list_update_append upd_conv_take_nth_drop)

lemma read_sysfs_data:
  assumes "open_rd (fs p)" "read_res (fs p) = ReadData bytes" "length buf = 512"
  shows "read_sysfs fs p buf 512 =
     \<lparr>rd_ret = int (length (take 511 bytes)),
      rd_buf = take 511 bytes @ NUL # drop (Suc (length (take 511 bytes))) buf,
      rd_store = Some (int (length (take 511 bytes))), rd_err = []\<rparr>"
proof -
  have n: "length (take 511 bytes) < length buf" using assms(3) by simp
  have "store_nul (take 511 bytes @ drop (length (take 511 bytes)) buf)
          (int (length (take 511 bytes)))
        = take 511 bytes @ NUL # drop (Suc (length (take 511 bytes))) buf"
    by (rule store_nul_at_end) (use n in simp_all)
  then show ?thesis using assms(1,2)
    by (simp add: read_sysfs_def size_t_def Let_def)
qed

lemma rtrim_loop_prefix: "k \<le> length a \<Longrightarrow> rtrim_loop (a @ b) k = rtrim_loop a k"
  by (induction k) (auto simp: nth_append)

lemma rtrim_loop_le: "rtrim_loop a k \<le> k"
  by (induction k) auto

lemma rtrim_c_str:
  assumes "NUL \<notin> set s"
  shows "c_str (rtrim (s @ NUL # t)) = take (rtrim_loop s (length s)) s"
proof -
  let ?j = "rtrim_loop s (length s)"
  have len: "strlen (s @ NUL # t) = length s"
    using assms by (simp add: strlen_def c_str_append_nul c_str_id)
  have "rtrim_loop (s @ NUL # t) (Suc (length s)) = rtrim_loop (s @ NUL # t) (length s)"
    by (simp add: trim_char_def)
  also have "\<dots> = ?j" by (rule rtrim_loop_prefix) simp
  finally have r: "rtrim (s @ NUL # t) = (s @ NUL # t)[?j := NUL]"
    by (simp add: rtrim_def len)
  have j: "?j \<le> length s" by (rule rtrim_loop_le)
  have "(s @ NUL # t)[?j := NUL] = take ?j s @ NUL # drop (Suc ?j) (s @ NUL # t)"
    using j by (simp add: upd_conv_take_nth_drop)
  moreover have "NUL \<notin> set (take ?j s)" using assms by (auto dest: in_set_takeD)
  ultimately show ?thesis using r by (simp add: c_str_append_nul c_str_id)
qed

lemma dec_nat_last: "dec_nat n \<noteq> [] \<and> (of_char (last (dec_nat n)) :: nat) = 48 + n mod 10"
  by (simp add: dec_nat.simps [of n])

lemma dec_int_chars: "c \<in> set (dec_int i) \<Longrightarrow> 45 \<le> (of_char c :: nat)"
  by (auto simp: dec_int_def dest: dec_nat_no_trim split: if_splits)

lemma dec_int_no_nul: "NUL \<notin> set (dec_int i)"
  using dec_int_chars [of NUL i] by (auto simp: NUL_def)

lemma rtrim_loop_last:
  "s \<noteq> [] \<Longrightarrow> \<not> trim_char (last s) \<Longrightarrow> rtrim_loop s (length s) = length s"
  by (cases s rule: rev_cases) auto

lemma dec_int_last: "dec_int i \<noteq> [] \<and> \<not> trim_char (last (dec_int i))"
proof -
  have "dec_int i \<noteq> []" using dec_nat_last by (simp add: dec_int_def)
  moreover have "last (dec_int i) \<in> set (dec_int i)" using calculation by simp
  then have "45 \<le> (of_char (last (dec_int i)) :: nat)" by (rule dec_int_chars)
  then have "\<not> trim_char (last (dec_int i))" by (auto simp: trim_char_def NUL_def)
  ultimately show ?thesis by simp
qed

lemma rtrim_dec_int: "c_str (rtrim (dec_int i @ NUL # t)) = dec_int i"
  using dec_int_last [of i]
  by (simp add: rtrim_c_str dec_int_no_nul rtrim_loop_last)

lemma snprintf_d_short:
  "length (dec_int v) \<le> 11 \<Longrightarrow>
   snprintf_d buf 512 v =
     (dec_int v @ NUL # drop (Suc (length (dec_int v))) buf, int (length (dec_int v)))"
  by (simp add: snprintf_d_def Let_def)

lemma write_sysfs_text:
  assumes "length s \<le> 11"
  shows "write_sysfs fs p (s @ NUL # t) (int (length s)) =
     (if \<not> open_wr (fs p) then
        \<lparr>wr_ret = - 1, wr_bytes = None, wr_err = [''write_sysfs failed (open)'']\<rparr>
      else case write_res (fs p) of
        WriteError \<Rightarrow>
          \<lparr>wr_ret = - 1, wr_bytes = None, wr_err = [''write_sysfs failed (write)'']\<rparr>
      | WriteAccepts k \<Rightarrow>
          \<lparr>wr_ret = int (min k (length s)), wr_bytes = Some (take k s),
           wr_err = (if k < length s then [''write_sysfs failed (write)''] else [])\<rparr>)"
proof -
  have "size_t (int (length s)) = length s" using assms by (simp add: size_t_def)
  then show ?thesis
    by (auto simp: write_sysfs_def Let_def min_def split: write_result.splits)
qed


subsection \<open>do_brightness when both files are read\<close>

text \<open>
  When both reads deliver data, the buffer drops out of the description: the outcome is a
  function of the two texts, the argument and what the brightness file does on a write.
\<close>

lemma clamp_range:
  assumes "- 2147483648 \<le> b" "b \<le> 2147483647" "- 2147483648 \<le> m" "m \<le> 2147483647"
  shows "length (dec_int (if b < 0 then 0 else if b > m then m else b)) \<le> 11"
  by (rule dec_int_length) (use assms in auto)

lemma do_brightness_readable:
  assumes m: "open_rd (fs MAX_BRIGHTNESS_PATH)" "read_res (fs MAX_BRIGHTNESS_PATH) = ReadData m"
    and c: "open_rd (fs BRIGHTNESS_PATH)" "read_res (fs BRIGHTNESS_PATH) = ReadData c"
  shows "do_brightness fs delta =
    (case sscanf_d (c_str (take 511 c)) of
       None \<Rightarrow>
         \<lparr>br_ret = 1, br_written = None, br_stdout = [],
          br_stderr = [''invalid brightness from sysfs'' @ [CHR 0x0A]]\<rparr>
     | Some br0 \<Rightarrow>
         (let max_br = (case sscanf_d (c_str (take 511 m)) of
                          None \<Rightarrow> 2147483647 | Some v \<Rightarrow> v);
              br1 = int32 (br0 + delta);
              br = (if br1 < 0 then 0 else if br1 > max_br then max_br else br1);
              s = dec_int br
          in if \<not> open_wr (fs BRIGHTNESS_PATH) then
               \<lparr>br_ret = 1, br_written = None, br_stdout = [],
                br_stderr = [''write_sysfs failed (open)'']\<rparr>
             else
               (case write_res (fs BRIGHTNESS_PATH) of
                  WriteError \<Rightarrow>
                    \<lparr>br_ret = 1, br_written = None, br_stdout = [],
                     br_stderr = [''write_sysfs failed (write)'']\<rparr>
                | WriteAccepts k \<Rightarrow>
                    \<lparr>br_ret = 0, br_written = Some (take k s),
                     br_stdout = ''Brightness: '' @ s,
                     br_stderr = (if k < length s then [''write_sysfs failed (write)'']
                                  else [])\<rparr>)))"
proof -
  define buf0 where "buf0 = replicate 512 NUL"
  define buf1 where "buf1 = take 511 m @ NUL # drop (Suc (length (take 511 m))) buf0"
  define buf2 where "buf2 = take 511 c @ NUL # drop (Suc (length (take 511 c))) buf1"
  have l0: "length buf0 = 512" by (simp add: buf0_def)
  have r1: "read_sysfs fs MAX_BRIGHTNESS_PATH buf0 512 =
      \<lparr>rd_ret = int (length (take 511 m)), rd_buf = buf1,
       rd_store = Some (int (length (take 511 m))), rd_err = []\<rparr>"
    unfolding buf1_def by (rule read_sysfs_data [where fs = fs and p = MAX_BRIGHTNESS_PATH, OF m l0])
  have l1: "length buf1 = 512" by (simp add: buf1_def buf0_def)
  have r2: "read_sysfs fs BRIGHTNESS_PATH buf1 512 =
      \<lparr>rd_ret = int (length (take 511 c)), rd_buf = buf2,
       rd_store = Some (int (length (take 511 c))), rd_err = []\<rparr>"
    unfolding buf2_def by (rule read_sysfs_data [where fs = fs and p = BRIGHTNESS_PATH, OF c l1])
  have s1: "c_str buf1 = c_str (take 511 m)" by (simp add: buf1_def c_str_append_nul)
  have s2: "c_str buf2 = c_str (take 511 c)" by (simp add: buf2_def c_str_append_nul)
  show ?thesis
  proof (cases "sscanf_d (c_str (take 511 c))")
    case None
    then show ?thesis
      by (simp add: do_brightness_def Let_def buf0_def [symmetric] r1 r2 s1 s2)
  next
    case (Some br0)
    define max_br where
      "max_br = (case sscanf_d (c_str (take 511 m)) of None \<Rightarrow> 2147483647 | Some v \<Rightarrow> v)"
    define br1 where "br1 = int32 (br0 + delta)"
    define br where "br = (if br1 < 0 then 0 else if br1 > max_br then max_br else br1)"
    have mr: "- 2147483648 \<le> max_br \<and> max_br \<le> 2147483647"
      using sscanf_d_range [of "c_str (take 511 m)"]
      by (auto simp: max_br_def split: option.splits)
    have len: "length (dec_int br) \<le> 11"
      unfolding br_def using int32_range [of "br0 + delta"] mr
      by (intro clamp_range) (simp_all add: br1_def)
    have sn: "snprintf_d buf2 512 br =
        (dec_int br @ NUL # drop (Suc (length (dec_int br))) buf2, int (length (dec_int br)))"
      by (rule snprintf_d_short [OF len])
    have w: "write_sysfs fs BRIGHTNESS_PATH
          (dec_int br @ NUL # drop (Suc (length (dec_int br))) buf2) (int (length (dec_int br))) =
       (if \<not> open_wr (fs BRIGHTNESS_PATH) then
          \<lparr>wr_ret = - 1, wr_bytes = None, wr_err = [''write_sysfs failed (open)'']\<rparr>
        else case write_res (fs BRIGHTNESS_PATH) of
          WriteError \<Rightarrow>
            \<lparr>wr_ret = - 1, wr_bytes = None, wr_err = [''write_sysfs failed (write)'']\<rparr>
        | WriteAccepts k \<Rightarrow>
            \<lparr>wr_ret = int (min k (length (dec_int br))), wr_bytes = Some (take k (dec_int br)),
             wr_err = (if k < length (dec_int br) then [''write_sysfs failed (write)'']
                       else [])\<rparr>)"
      by (rule write_sysfs_text [where fs = fs and p = BRIGHTNESS_PATH, OF len])
    have "do_brightness fs delta =
       (let w = write_sysfs fs BRIGHTNESS_PATH
                  (dec_int br @ NUL # drop (Suc (length (dec_int br))) buf2)
                  (int (length (dec_int br)))
        in if wr_ret w = - 1 then
             \<lparr>br_ret = 1, br_written = wr_bytes w, br_stdout = [], br_stderr = wr_err w\<rparr>
           else
             \<lparr>br_ret = 0, br_written = wr_bytes w,
              br_stdout = ''Brightness: '' @ dec_int br, br_stderr = wr_err w\<rparr>)"
      using Some
      by (simp add: do_brightness_def Let_def buf0_def [symmetric] r1 r2 s1 s2
          max_br_def [symmetric] br1_def [symmetric] br_def [symmetric] sn rtrim_dec_int)
    also have "\<dots> =
       (if \<not> open_wr (fs BRIGHTNESS_PATH) then
          \<lparr>br_ret = 1, br_written = None, br_stdout = [],
           br_stderr = [''write_sysfs failed (open)'']\<rparr>
        else
          (case write_res (fs BRIGHTNESS_PATH) of
             WriteError \<Rightarrow>
               \<lparr>br_ret = 1, br_written = None, br_stdout = [],
                br_stderr = [''write_sysfs failed (write)'']\<rparr>
           | WriteAccepts k \<Rightarrow>
               \<lparr>br_ret = 0, br_written = Some (take k (dec_int br)),
                br_stdout = ''Brightness: '' @ dec_int br,
                br_stderr = (if k < length (dec_int br) then [''write_sysfs failed (write)'']
                             else [])\<rparr>))"
      unfolding w by (simp add: Let_def split: write_result.splits)
    finally show ?thesis
      using Some unfolding br_def br1_def max_br_def by (simp add: Let_def)
  qed
qed

subsection \<open>The example environments\<close>

lemma paths_differ: "MAX_BRIGHTNESS_PATH \<noteq> BRIGHTNESS_PATH"
  by (simp add: MAX_BRIGHTNESS_PATH_def BRIGHTNESS_PATH_def)

lemma backlight_max [simp]: "backlight a b MAX_BRIGHTNESS_PATH = a"
  by (simp add: backlight_def)

lemma backlight_cur [simp]: "backlight a b BRIGHTNESS_PATH = b"
  using paths_differ by (simp add: backlight_def)

subsection \<open>do_brightness when a file is not read\<close>

lemma do_brightness_max_unreadable:
  assumes "\<not> open_rd (fs MAX_BRIGHTNESS_PATH) \<or> read_res (fs MAX_BRIGHTNESS_PATH) = ReadError"
  shows "br_ret (do_brightness fs delta) = 1 \<and> br_written (do_brightness fs delta) = None"
  using assms by (auto simp: do_brightness_def read_sysfs_def Let_def)

section \<open>The brightness path\<close>

text \<open>
  C6. When the text read from the brightness file does not parse as an integer,
  \<open>do_brightness\<close> returns 1 (the value \<open>main\<close> returns as the exit code) and the
  brightness file receives no write, whatever the max-brightness file does.
\<close>

theorem invalid_brightness_fails_without_write:
  assumes "open_rd (fs BRIGHTNESS_PATH)" "read_res (fs BRIGHTNESS_PATH) = ReadData c"
    and "sscanf_d (c_str (take 511 c)) = None"
  shows "br_ret (do_brightness fs delta) = 1 \<and> br_written (do_brightness fs delta) = None"
proof (cases "open_rd (fs MAX_BRIGHTNESS_PATH)")
  case False
  then show ?thesis by (simp add: do_brightness_max_unreadable)
next
  case True
  show ?thesis
  proof (cases "read_res (fs MAX_BRIGHTNESS_PATH)")
    case ReadError
    then show ?thesis by (simp add: do_brightness_max_unreadable)
  next
    case (ReadData m)
    show ?thesis
      using assms(3) by (simp add: do_brightness_readable [OF True ReadData assms(1,2)])
  qed
qed

theorem invalid_brightness_fails_without_write_witness:
  "sscanf_d (c_str (take 511 ''dim'')) = None
   \<and> br_ret (do_brightness (backlight (sysfs_text ''255'') (sysfs_text ''dim'')) 5) = 1
   \<and> br_written (do_brightness (backlight (sysfs_text ''255'') (sysfs_text ''dim'')) 5) = None"
proof -
  have p: "sscanf_d (c_str (take 511 ''dim'')) = None"
    by (simp add: sscanf_d_def c_str_def NUL_def isspace_def scan_digits_def isdigit_def)
  show ?thesis
    using p invalid_brightness_fails_without_write
      [of "backlight (sysfs_text ''255'') (sysfs_text ''dim'')" "''dim''" 5]
    by (simp add: sysfs_text_def)
qed

subsection \<open>Texts and numbers of the examples\<close>

lemma sscanf_d_255: "sscanf_d (c_str (take 511 ''255'')) = Some 255"
  by (simp add: sscanf_d_def c_str_def NUL_def isspace_def scan_digits_def isdigit_def
      digit_val_def store_int_def int32_def)

lemma sscanf_d_200: "sscanf_d (c_str (take 511 ''200'')) = Some 200"
  by (simp add: sscanf_d_def c_str_def NUL_def isspace_def scan_digits_def isdigit_def
      digit_val_def store_int_def int32_def)

lemma sscanf_d_10: "sscanf_d (c_str (take 511 ''10'')) = Some 10"
  by (simp add: sscanf_d_def c_str_def NUL_def isspace_def scan_digits_def isdigit_def
      digit_val_def store_int_def int32_def)

lemma sscanf_d_1: "sscanf_d (c_str (take 511 ''1'')) = Some 1"
  by (simp add: sscanf_d_def c_str_def NUL_def isspace_def scan_digits_def isdigit_def
      digit_val_def store_int_def int32_def)

lemma sscanf_d_max: "sscanf_d (c_str (take 511 ''max'')) = None"
  by (simp add: sscanf_d_def c_str_def NUL_def isspace_def scan_digits_def isdigit_def)

lemma dec_int_0: "dec_int 0 = ''0''"
  by code_simp

lemma dec_int_15: "dec_int 15 = ''15''"
  by code_simp

lemma dec_int_255: "dec_int 255 = ''255''"
  by code_simp

text \<open>
  C3. The fallback to 2147483647 belongs to the text of the max-brightness file, not to
  the reading of it. When the file is read and \<open>sscanf\<close> stores nothing from its text,
  \<open>do_brightness\<close> goes on with 2147483647 as the ceiling: with a current value that
  parses and a brightness file that opens for writing it returns 0, and the text handed
  to the file is the decimal of the new value between 0 and 2147483647. When the file
  does not open or the read fails, \<open>do_brightness\<close> returns 1 and writes nothing.
\<close>

theorem max_unparseable_ceiling:
  "(open_rd (fs MAX_BRIGHTNESS_PATH) \<and> read_res (fs MAX_BRIGHTNESS_PATH) = ReadData m
      \<and> sscanf_d (c_str (take 511 m)) = None
      \<and> open_rd (fs BRIGHTNESS_PATH) \<and> read_res (fs BRIGHTNESS_PATH) = ReadData c
      \<and> sscanf_d (c_str (take 511 c)) = Some br0
      \<and> open_wr (fs BRIGHTNESS_PATH) \<and> write_res (fs BRIGHTNESS_PATH) = WriteAccepts k
    \<longrightarrow> br_ret (do_brightness fs delta) = 0
      \<and> br_written (do_brightness fs delta)
          = Some (take k (dec_int (max 0 (min 2147483647 (int32 (br0 + delta)))))))
   \<and> (\<not> open_rd (fs MAX_BRIGHTNESS_PATH) \<or> read_res (fs MAX_BRIGHTNESS_PATH) = ReadError
    \<longrightarrow> br_ret (do_brightness fs delta) = 1 \<and> br_written (do_brightness fs delta) = None)"
proof (intro conjI impI)
  assume a: "open_rd (fs MAX_BRIGHTNESS_PATH) \<and> read_res (fs MAX_BRIGHTNESS_PATH) = ReadData m
      \<and> sscanf_d (c_str (take 511 m)) = None
      \<and> open_rd (fs BRIGHTNESS_PATH) \<and> read_res (fs BRIGHTNESS_PATH) = ReadData c
      \<and> sscanf_d (c_str (take 511 c)) = Some br0
      \<and> open_wr (fs BRIGHTNESS_PATH) \<and> write_res (fs BRIGHTNESS_PATH) = WriteAccepts k"
  then have r: "do_brightness fs delta =
      \<lparr>br_ret = 0,
       br_written = Some (take k (dec_int (if int32 (br0 + delta) < 0 then 0
                                         else int32 (br0 + delta)))),
       br_stdout = ''Brightness: '' @ dec_int (if int32 (br0 + delta) < 0 then 0
                                         else int32 (br0 + delta)),
       br_stderr = (if k < length (dec_int (if int32 (br0 + delta) < 0 then 0
                                         else int32 (br0 + delta)))
                    then [''write_sysfs failed (write)''] else [])\<rparr>"
    using int32_range [of "br0 + delta"]
    by (simp add: do_brightness_readable [of fs m c] Let_def)
  have m: "max 0 (min 2147483647 (int32 (br0 + delta)))
      = (if int32 (br0 + delta) < 0 then 0 else int32 (br0 + delta))"
    using int32_range [of "br0 + delta"] by simp
  show "br_ret (do_brightness fs delta) = 0" by (simp add: r)
  show "br_written (do_brightness fs delta)
      = Some (take k (dec_int (max 0 (min 2147483647 (int32 (br0 + delta))))))"
    unfolding m by (simp add: r)
next
  assume "\<not> open_rd (fs MAX_BRIGHTNESS_PATH) \<or> read_res (fs MAX_BRIGHTNESS_PATH) = ReadError"
  then have u: "br_ret (do_brightness fs delta) = 1 \<and> br_written (do_brightness fs delta) = None"
    by (rule do_brightness_max_unreadable)
  from u show "br_ret (do_brightness fs delta) = 1" by simp
  from u show "br_written (do_brightness fs delta) = None" by simp
qed

theorem max_unparseable_ceiling_witness:
  "br_ret (do_brightness (backlight (sysfs_text ''max'') (sysfs_text ''10'')) 5) = 0
   \<and> br_written (do_brightness (backlight (sysfs_text ''max'') (sysfs_text ''10'')) 5)
       = Some ''15''
   \<and> br_ret (do_brightness
        (backlight ((sysfs_text ''255'')\<lparr>read_res := ReadError\<rparr>) (sysfs_text ''10'')) 5) = 1
   \<and> br_written (do_brightness
        (backlight ((sysfs_text ''255'')\<lparr>read_res := ReadError\<rparr>) (sysfs_text ''10'')) 5) = None"
  using sscanf_d_max sscanf_d_10 dec_int_15
    max_unparseable_ceiling
      [of "backlight (sysfs_text ''max'') (sysfs_text ''10'')" "''max''" "''10''" 10 4096 5]
    max_unparseable_ceiling
      [of "backlight ((sysfs_text ''255'')\<lparr>read_res := ReadError\<rparr>) (sysfs_text ''10'')"
          "''255''" "''10''" 10 4096 5]
  by (simp add: sysfs_text_def int32_def)

text \<open>
  The max-brightness file does not open, the current brightness is 10 and the argument
  is 5: the run fails, where a ceiling of 2147483647 would have written 15.
\<close>

theorem max_unreadable_counterexample:
  "\<not> open_rd (backlight sysfs_absent (sysfs_text ''10'') MAX_BRIGHTNESS_PATH)
   \<and> br_ret (do_brightness (backlight sysfs_absent (sysfs_text ''10'')) 5) = 1
   \<and> br_written (do_brightness (backlight sysfs_absent (sysfs_text ''10'')) 5) = None"
  by (simp add: do_brightness_def read_sysfs_def sysfs_absent_def)

subsection \<open>The value written\<close>

text \<open>
  With a ceiling \<open>mx\<close> that is not negative, the text handed to the brightness file is the
  decimal of the sum \<open>br0 + delta\<close>, as the 32-bit addition leaves it, brought into
  \<open>0 .. mx\<close>. Where the sum fits 32 bits that is the sum itself brought into \<open>0 .. mx\<close>.
\<close>

lemma brightness_written_value:
  assumes "open_rd (fs MAX_BRIGHTNESS_PATH)" "read_res (fs MAX_BRIGHTNESS_PATH) = ReadData m"
    and "sscanf_d (c_str (take 511 m)) = Some mx" "0 \<le> mx"
    and "open_rd (fs BRIGHTNESS_PATH)" "read_res (fs BRIGHTNESS_PATH) = ReadData c"
    and "sscanf_d (c_str (take 511 c)) = Some br0"
    and "open_wr (fs BRIGHTNESS_PATH)" "write_res (fs BRIGHTNESS_PATH) = WriteAccepts k"
  shows "br_written (do_brightness fs delta)
     = Some (take k (dec_int (max 0 (min mx (int32 (br0 + delta))))))"
  using assms(3,4,7,8,9)
  by (auto simp: do_brightness_readable [OF assms(1,2,5,6)] Let_def max_def min_def)

lemma brightness_clamp_without_overflow:
  assumes "open_rd (fs MAX_BRIGHTNESS_PATH)" "read_res (fs MAX_BRIGHTNESS_PATH) = ReadData m"
    and "sscanf_d (c_str (take 511 m)) = Some mx" "0 \<le> mx"
    and "open_rd (fs BRIGHTNESS_PATH)" "read_res (fs BRIGHTNESS_PATH) = ReadData c"
    and "sscanf_d (c_str (take 511 c)) = Some br0"
    and "- 2147483648 \<le> br0 + delta" "br0 + delta \<le> 2147483647"
    and "open_wr (fs BRIGHTNESS_PATH)" "write_res (fs BRIGHTNESS_PATH) = WriteAccepts k"
  shows "br_written (do_brightness fs delta) = Some (take k (dec_int (max 0 (min mx (br0 + delta)))))"
  using brightness_written_value [OF assms(1-7,10,11), of delta] int32_id [OF assms(8,9)]
  by simp

text \<open>
  C4. The sum \<open>br += delta\<close> is a 32-bit addition made before the clamp. With the
  current brightness 1, the maximum 255 and the argument 2147483647 the sum leaves the
  range of \<open>int\<close>; as two's complement it is -2147483648, the clamp gives 0, and the
  text \<open>0\<close> is written, where the clamp of the sum of the two numbers is 255.
\<close>

theorem brightness_overflow_writes_zero:
  "br_ret (do_brightness (backlight (sysfs_text ''255'') (sysfs_text ''1'')) 2147483647) = 0
   \<and> br_written (do_brightness (backlight (sysfs_text ''255'') (sysfs_text ''1'')) 2147483647)
       = Some ''0''"
proof -
  have "do_brightness (backlight (sysfs_text ''255'') (sysfs_text ''1'')) 2147483647 =
     \<lparr>br_ret = 0, br_written = Some ''0'', br_stdout = ''Brightness: 0'', br_stderr = []\<rparr>"
    using sscanf_d_255 sscanf_d_1 dec_int_0
    by (simp add: do_brightness_readable [of _ "''255''" "''1''"] sysfs_text_def int32_def
        Let_def)
  then show ?thesis by simp
qed

text \<open>
  C5. A short write is told to \<open>perror\<close> and then returned as the number of bytes
  written; \<open>do_brightness\<close> takes only -1 for a failure. With the brightness at 200, the
  maximum 255, the argument 100 and a file that accepts one byte of the three,
  \<open>write_sysfs\<close> returns 1 and \<open>do_brightness\<close> returns 0 and prints the new value,
  after the message of the failed write.
\<close>

theorem short_write_reported_as_success:
  "wr_ret (write_sysfs
      (backlight (sysfs_text ''255'') ((sysfs_text ''200'')\<lparr>write_res := WriteAccepts 1\<rparr>))
      BRIGHTNESS_PATH ''255'' 3) = 1
   \<and> do_brightness
      (backlight (sysfs_text ''255'') ((sysfs_text ''200'')\<lparr>write_res := WriteAccepts 1\<rparr>)) 100
     = \<lparr>br_ret = 0, br_written = Some ''2'', br_stdout = ''Brightness: 255'',
        br_stderr = [''write_sysfs failed (write)'']\<rparr>"
proof -
  have a: "wr_ret (write_sysfs
      (backlight (sysfs_text ''255'') ((sysfs_text ''200'')\<lparr>write_res := WriteAccepts 1\<rparr>))
      BRIGHTNESS_PATH ''255'' 3) = 1"
    by (simp add: write_sysfs_def sysfs_text_def size_t_def)
  have b: "do_brightness
      (backlight (sysfs_text ''255'') ((sysfs_text ''200'')\<lparr>write_res := WriteAccepts 1\<rparr>)) 100
     = \<lparr>br_ret = 0, br_written = Some ''2'', br_stdout = ''Brightness: 255'',
        br_stderr = [''write_sysfs failed (write)'']\<rparr>"
    using sscanf_d_255 sscanf_d_200 dec_int_255
    by (simp add: do_brightness_readable [of _ "''255''" "''200''"] sysfs_text_def int32_def
        Let_def)
  show ?thesis using a b by simp
qed

subsection \<open>The terminator stored by read_sysfs\<close>

text \<open>
  When the read succeeds, the terminator lands inside a buffer of at least \<open>buflen\<close>
  bytes.
\<close>

lemma read_sysfs_store_in_bounds:
  assumes "rd_store (read_sysfs fs path buf buflen) = Some k"
    and "rd_ret (read_sysfs fs path buf buflen) \<noteq> - 1"
    and "0 < buflen" "buflen \<le> int (length buf)"
  shows "in_bounds buf k"
proof -
  have "size_t (buflen - 1) \<le> nat (buflen - 1)"
    using assms(3) by (auto simp: size_t_def intro!: nat_mono zmod_le_nonneg_dividend)
  then have "\<And>bytes. int (length (take (size_t (buflen - 1)) bytes)) < int (length buf)"
    using assms(3,4) by auto
  then show ?thesis
    using assms(1,2)
    by (auto simp: read_sysfs_def in_bounds_def Let_def split: if_splits read_result.splits)
qed

text \<open>
  C10. When the file opens and \<open>read\<close> fails, \<open>rdlen\<close> is -1; the function reports the
  failure and goes on to \<open>buf[rdlen] = '\0'\<close>, a store one byte below the buffer. Only
  the failure of \<open>open\<close> returns before the store.
\<close>

theorem read_failure_stores_out_of_bounds:
  "rd_store (read_sysfs (backlight ((sysfs_text '''')\<lparr>read_res := ReadError\<rparr>) (sysfs_text ''200''))
      MAX_BRIGHTNESS_PATH (replicate 512 NUL) 512) = Some (- 1)
   \<and> \<not> in_bounds (replicate 512 NUL) (- 1)"
  by (simp add: read_sysfs_def sysfs_text_def in_bounds_def)

section \<open>What the audio callbacks do\<close>

lemma normal_volume: "sint PA_VOLUME_NORM = 65536"
  by (simp add: PA_VOLUME_NORM_def)

lemma muted_volume: "sint PA_VOLUME_MUTED = 0"
  by (simp add: PA_VOLUME_MUTED_def)

text \<open>
  The test of the source is strict on both sides, between the quotients 64225 and 66846.
\<close>

lemma snap_strictly_between:
  "(v > c_div (65536 * 98) 100 \<and> v < c_div (65536 * 102) 100) = (64225 < v \<and> v < 66846)"
  by (simp add: c_div_def)

text \<open>
  98% of 65536 is 64225.28 and 102% is 66846.72. An integer is above 64225 exactly when
  it is at least 98% of 65536; 66846, the one integer within 102% that the test leaves
  out, is above 65536 and the clamp takes it there.
\<close>

lemma snap_then_clamp:
  "PA_CLAMP_UNLIKELY
     (if v > c_div (65536 * 98) 100 \<and> v < c_div (65536 * 102) 100 then 65536 else v) 0 65536 =
   (if 98 * 65536 \<le> 100 * v \<and> 100 * v \<le> 102 * 65536 then 65536 else max 0 (min 65536 v))"
  by (auto simp: PA_CLAMP_UNLIKELY_def c_div_def)

lemma stereo_max: "pa_cvolume_max (sink_volume (stereo_sink v)) = v"
  by (simp add: stereo_sink_def pa_cvolume_max_def PA_VOLUME_MUTED_def)

text \<open>
  For action \<open>v\<close> on a sink with at least one channel, the volume requested is decided
  by the sum of the largest channel volume and the argument as the 32-bit addition
  leaves it: when that is at least 98% and at most 102% of \<open>PA_VOLUME_NORM\<close> the request
  carries \<open>PA_VOLUME_NORM\<close> itself; otherwise it carries that value brought into the
  range from \<open>PA_VOLUME_MUTED\<close> to \<open>PA_VOLUME_NORM\<close>.
\<close>

lemma volume_snap_and_clamp:
  assumes "pulse_op s = CHR ''v''" "\<not> channels (sink_volume info) < 1"
  shows "sent (do_pulse_vs (Some info) 0 s) = sent s @
     [Set_sink_volume_by_index (sink_index info) (sink_volume info)
        (let computed = int32 (sint (pa_cvolume_max (sink_volume info)) + pulse_arg s);
             normal = sint PA_VOLUME_NORM
         in if 98 * normal \<le> 100 * computed \<and> 100 * computed \<le> 102 * normal then normal
            else max (sint PA_VOLUME_MUTED) (min normal computed))]"
  using assms
    snap_then_clamp [of "int32 (sint (pa_cvolume_max (sink_volume info)) + pulse_arg s)"]
  by (simp add: do_pulse_vs_def Let_def normal_volume muted_volume)

text \<open>
  Where the sum of the two numbers fits 32 bits, the rule is about the sum itself.
\<close>

lemma volume_snap_and_clamp_without_overflow:
  assumes "pulse_op s = CHR ''v''" "\<not> channels (sink_volume info) < 1"
    and "- 2147483648 \<le> sint (pa_cvolume_max (sink_volume info)) + pulse_arg s"
    and "sint (pa_cvolume_max (sink_volume info)) + pulse_arg s \<le> 2147483647"
  shows "sent (do_pulse_vs (Some info) 0 s) = sent s @
     [Set_sink_volume_by_index (sink_index info) (sink_volume info)
        (let computed = sint (pa_cvolume_max (sink_volume info)) + pulse_arg s;
             normal = sint PA_VOLUME_NORM
         in if 98 * normal \<le> 100 * computed \<and> 100 * computed \<le> 102 * normal then normal
            else max (sint PA_VOLUME_MUTED) (min normal computed))]"
  using volume_snap_and_clamp [OF assms(1,2)] int32_id [OF assms(3,4)]
  by simp

text \<open>
  Both channels at 64000: plus 226 is 64226 and becomes 65536, plus 225 is 64225 and
  stays, plus 2846 is 66846 and becomes 65536, minus 70000 becomes 0.
\<close>

lemma volume_snap_and_clamp_examples:
  "sent (do_pulse_vs (Some (stereo_sink 64000)) 0 (session_start CHR ''v'' 226)) =
     [Set_sink_volume_by_index 0 \<lparr>channels = 2, volumes = [64000, 64000]\<rparr> 65536]
   \<and> sent (do_pulse_vs (Some (stereo_sink 64000)) 0 (session_start CHR ''v'' 225)) =
     [Set_sink_volume_by_index 0 \<lparr>channels = 2, volumes = [64000, 64000]\<rparr> 64225]
   \<and> sent (do_pulse_vs (Some (stereo_sink 64000)) 0 (session_start CHR ''v'' 2846)) =
     [Set_sink_volume_by_index 0 \<lparr>channels = 2, volumes = [64000, 64000]\<rparr> 65536]
   \<and> sent (do_pulse_vs (Some (stereo_sink 64000)) 0 (session_start CHR ''v'' (- 70000))) =
     [Set_sink_volume_by_index 0 \<lparr>channels = 2, volumes = [64000, 64000]\<rparr> 0]"
proof -
  have s: "pulse_op (session_start CHR ''v'' a) = CHR ''v''"
    "pulse_arg (session_start CHR ''v'' a) = a" "sent (session_start CHR ''v'' a) = []" for a
    by (simp_all add: session_start_def)
  have k: "\<not> channels (sink_volume (stereo_sink 64000)) < 1"
    "sink_index (stereo_sink 64000) = 0"
    "sink_volume (stereo_sink 64000) = \<lparr>channels = 2, volumes = [64000, 64000]\<rparr>"
    by (simp_all add: stereo_sink_def)
  show ?thesis
    using volume_snap_and_clamp [OF s(1) k(1), of 226]
      volume_snap_and_clamp [OF s(1) k(1), of 225]
      volume_snap_and_clamp [OF s(1) k(1), of 2846]
      volume_snap_and_clamp [OF s(1) k(1), of "- 70000"]
    by (simp add: s k(2) stereo_max int32_def normal_volume muted_volume Let_def)
      (simp add: k(3))
qed

text \<open>
  C1. The sum of the largest channel volume and the argument is a 32-bit addition made
  before the snap and the clamp. With both channels at \<open>PA_VOLUME_NORM\<close> (65536) and the
  argument 2147483647 the sum leaves the range of \<open>int\<close>; as two's complement it is
  -2147418113, the clamp gives 0, and the request carries the volume 0, where the sum of
  the two numbers lies above \<open>PA_VOLUME_NORM\<close> and its clamp is 65536.
\<close>

theorem volume_overflow_sends_zero:
  "sent (do_pulse_vs (Some (stereo_sink 65536)) 0 (session_start CHR ''v'' 2147483647)) =
     [Set_sink_volume_by_index 0 \<lparr>channels = 2, volumes = [65536, 65536]\<rparr> 0]"
proof -
  have s: "pulse_op (session_start CHR ''v'' a) = CHR ''v''"
    "pulse_arg (session_start CHR ''v'' a) = a" "sent (session_start CHR ''v'' a) = []" for a
    by (simp_all add: session_start_def)
  have k: "\<not> channels (sink_volume (stereo_sink 65536)) < 1"
    "sink_index (stereo_sink 65536) = 0"
    "sink_volume (stereo_sink 65536) = \<lparr>channels = 2, volumes = [65536, 65536]\<rparr>"
    by (simp_all add: stereo_sink_def)
  show ?thesis
    using volume_snap_and_clamp [OF s(1) k(1), of 2147483647]
    by (simp add: s k(2) stereo_max int32_def normal_volume muted_volume Let_def)
      (simp add: k(3))
qed

text \<open>
  C2. In both info callbacks a negative end-of-list code asks the loop to stop with
  status 1 and sends nothing. A positive code returns at once: the session is left as
  it was, so the loop is not asked to stop and nothing is sent, whether or not a record
  came before.
\<close>

theorem end_of_list_handling:
  "(eol < 0 \<and> pulse_mapi s \<longrightarrow>
      quit_request (do_pulse_vs i eol s) = Some 1 \<and> sent (do_pulse_vs i eol s) = sent s
      \<and> quit_request (do_pulse_m j eol s) = Some 1 \<and> sent (do_pulse_m j eol s) = sent s)
   \<and> (0 < eol \<longrightarrow> do_pulse_vs i eol s = s \<and> do_pulse_m j eol s = s)"
  by (simp add: do_pulse_vs_def do_pulse_m_def pulse_quit_def)

theorem end_of_list_handling_witness:
  "quit_request (do_pulse_vs None (- 1) (session_start CHR ''v'' 5)) = Some 1
   \<and> sent (do_pulse_vs None (- 1) (session_start CHR ''v'' 5)) = []
   \<and> quit_request (do_pulse_m None (- 1) (session_start CHR ''v'' 5)) = Some 1
   \<and> sent (do_pulse_m None (- 1) (session_start CHR ''v'' 5)) = []
   \<and> do_pulse_vs None 1 (session_start CHR ''v'' 5) = session_start CHR ''v'' 5
   \<and> do_pulse_m None 1 (session_start CHR ''v'' 5) = session_start CHR ''v'' 5"
  using end_of_list_handling [of "- 1" "session_start CHR ''v'' 5" None None]
    end_of_list_handling [of 1 "session_start CHR ''v'' 5" None None]
  by (simp add: session_start_def)

text \<open>
  A session that has just started, so no record came before: after the end-of-list
  code 1 the loop has not been asked to stop, for any of the three actions.
\<close>

theorem positive_eol_counterexample:
  "quit_request (do_pulse_vs None 1 (session_start CHR ''s'' (- 1))) = None
   \<and> quit_request (do_pulse_vs None 1 (session_start CHR ''v'' 5)) = None
   \<and> quit_request (do_pulse_m None 1 (session_start CHR ''m'' (- 1))) = None"
  by (simp add: do_pulse_vs_def do_pulse_m_def session_start_def)

text \<open>
  C7. The completion callback of a mute or volume request asks the loop to stop with
  status 0 and changes nothing else, whatever the success flag it is called with. The
  loop's API is set: \<open>main\<close> stores it before the loop runs.
\<close>

theorem mutation_completion_quits_with_success:
  "pulse_mapi s \<Longrightarrow> do_pulse_success success s = s\<lparr>quit_request := Some 0\<rparr>"
  by (simp add: do_pulse_success_def pulse_quit_def)

theorem mutation_completion_quits_with_success_witness:
  "quit_request (do_pulse_success 0 (session_start CHR ''s'' (- 1))) = Some 0
   \<and> quit_request (do_pulse_success 1 (session_start CHR ''s'' (- 1))) = Some 0"
  using mutation_completion_quits_with_success [of "session_start CHR ''s'' (- 1)" 0]
    mutation_completion_quits_with_success [of "session_start CHR ''s'' (- 1)" 1]
  by (simp add: session_start_def)

text \<open>
  C8. For action \<open>v\<close>, a record whose volume has no channel makes the callback ask the
  loop to stop with status 0 and nothing else: no request is sent.
\<close>

theorem zero_channels_quits_without_request:
  assumes "pulse_op s = CHR ''v''" "channels (sink_volume info) = 0" "pulse_mapi s"
  shows "do_pulse_vs (Some info) 0 s = s\<lparr>quit_request := Some 0\<rparr>"
  using assms by (simp add: do_pulse_vs_def pulse_quit_def)

theorem zero_channels_quits_without_request_witness:
  "quit_request (do_pulse_vs
      (Some \<lparr>sink_index = 0, sink_mute = 0, sink_volume = \<lparr>channels = 0, volumes = []\<rparr>\<rparr>) 0
      (session_start CHR ''v'' 5)) = Some 0
   \<and> sent (do_pulse_vs
      (Some \<lparr>sink_index = 0, sink_mute = 0, sink_volume = \<lparr>channels = 0, volumes = []\<rparr>\<rparr>) 0
      (session_start CHR ''v'' 5)) = []"
  using zero_channels_quits_without_request [of "session_start CHR ''v'' 5"
      "\<lparr>sink_index = 0, sink_mute = 0, sink_volume = \<lparr>channels = 0, volumes = []\<rparr>\<rparr>"]
  by (simp add: session_start_def)

text \<open>
  C9. With action \<open>s\<close> the callback sends one request, to set the mute of the record's
  sink to the negation of the mute it reports; the source callback does the same for
  the source. One invocation of the speaker toggle leaves the default sink muted
  exactly when it was not muted before and leaves the source alone, and likewise for
  the microphone toggle. Two invocations of either in a row leave the device muted
  exactly when it was muted before, from any state of the server.
\<close>

theorem toggle_negates_and_twice_restores:
  "sent (do_pulse_vs (Some sink) 0 (session_start CHR ''s'' arg))
     = [Set_sink_mute_by_index (sink_index sink) (if sink_mute sink = 0 then 1 else 0)]
   \<and> sent (do_pulse_m (Some source) 0 (session_start CHR ''m'' arg))
     = [Set_source_mute_by_index (source_index source) (if source_mute source = 0 then 1 else 0)]
   \<and> sink_mute (default_sink (toggle_speakers srv))
       = (if sink_mute (default_sink srv) = 0 then 1 else 0)
   \<and> source_mute (default_source (toggle_mic srv))
       = (if source_mute (default_source srv) = 0 then 1 else 0)
   \<and> (sink_mute (default_sink (toggle_speakers (toggle_speakers srv))) \<noteq> 0)
       = (sink_mute (default_sink srv) \<noteq> 0)
   \<and> (source_mute (default_source (toggle_mic (toggle_mic srv))) \<noteq> 0)
       = (source_mute (default_source srv) \<noteq> 0)
   \<and> source_mute (default_source (toggle_speakers srv)) = source_mute (default_source srv)
   \<and> sink_mute (default_sink (toggle_mic srv)) = sink_mute (default_sink srv)"
  by (simp add: toggle_speakers_def toggle_mic_def do_pulse_vs_def do_pulse_m_def
      session_start_def serve_def)

end
